theory Spec2Isabelle
  imports Complex_Main "HOL-Library.FSet"
begin

section \<open>PerformanceMonitor (assets/js/performance-monitor.js)\<close>

subsection \<open>JavaScript values used by the monitor\<close>

text \<open>
  \<open>Math.round\<close> rounds to the nearest integer, a tie going up (towards plus infinity).
\<close>

definition Math_round :: "real \<Rightarrow> int" where
  "Math_round x = \<lfloor>x + 1 / 2\<rfloor>"

text \<open>
  \<open>x || d\<close> on a numeric hint that may be missing: \<open>undefined\<close> (here \<open>None\<close>) and
  \<open>0\<close> are falsy and give the default \<open>d\<close>, every other number is kept.
\<close>

definition js_or :: "'a::zero option \<Rightarrow> 'a \<Rightarrow> 'a" where
  "js_or x d = (case x of None \<Rightarrow> d | Some v \<Rightarrow> if v = 0 then d else v)"

text \<open>
  A JavaScript \<open>Set\<close> of animation ids is a finite set; only \<open>add\<close>, \<open>delete\<close>,
  \<open>clear\<close> and \<open>size\<close> are used by the monitor.
\<close>

definition Set_add :: "string \<Rightarrow> string fset \<Rightarrow> string fset" where
  "Set_add x A = finsert x A"

definition Set_delete :: "string \<Rightarrow> string fset \<Rightarrow> string fset" where
  "Set_delete x A = A |-| {|x|}"

definition Set_size :: "string fset \<Rightarrow> nat" where
  "Set_size A = fcard A"

subsection \<open>Configuration and state\<close>

datatype tier = Low | Medium | High

text \<open>\<open>config.thresholds\<close> and the parts of \<open>config.monitoring\<close> that the code reads.\<close>

definition lowFPS :: int where "lowFPS = 30"
definition mediumFPS :: int where "mediumFPS = 50"
definition highFPS :: int where "highFPS = 58"
definition longTaskThreshold :: real where "longTaskThreshold = 50"
definition fpsWindow :: real where "fpsWindow = 2000"
definition enableLogging :: bool where "enableLogging = True"

text \<open>\<open>config.degradation\<close>: the policy.\<close>

record degradation =
  disableComplexAnimations :: bool
  reduceAnimationDuration :: bool
  disableParallax :: bool
  reduceBlurEffects :: bool
  limitConcurrentAnimations :: nat

record longTask =
  lt_duration :: real
  lt_startTime :: real
  lt_timestamp :: real

text \<open>\<open>performanceData\<close>.\<close>

record performanceData =
  fps :: int
  fpsHistory :: "int list"
  longTasks :: "longTask list"
  deviceTier :: tier
  isReducedMotion :: bool
  activeAnimations :: "string fset"
  isMonitoring :: bool

text \<open>
  The monitor object together with what its methods write outside of it: the style
  properties and the class list of the document root, and the console. A console entry
  keeps the level and the message of a \<open>log\<close> call; the time stamp and the data object
  printed with it are left out.
\<close>

record monitor =
  degradation :: degradation
  performanceData :: performanceData
  rootStyle :: "string \<rightharpoonup> string"
  rootClasses :: "string list"
  console :: "(string \<times> string) list"

definition initial :: monitor where
  "initial = \<lparr>
     degradation = \<lparr> disableComplexAnimations = False, reduceAnimationDuration = False,
       disableParallax = False, reduceBlurEffects = False, limitConcurrentAnimations = 3 \<rparr>,
     performanceData = \<lparr> fps = 60, fpsHistory = [], longTasks = [], deviceTier = High,
       isReducedMotion = False, activeAnimations = {||}, isMonitoring = False \<rparr>,
     rootStyle = Map.empty, rootClasses = [], console = [] \<rparr>"

subsection \<open>Logging and the document root\<close>

definition log :: "string \<Rightarrow> string \<Rightarrow> monitor \<Rightarrow> monitor" where
  "log message level m =
     (if \<not> enableLogging then m else m\<lparr>console := console m @ [(level, message)]\<rparr>)"

definition setProperty :: "string \<Rightarrow> string \<Rightarrow> monitor \<Rightarrow> monitor" where
  "setProperty name v m = m\<lparr>rootStyle := (rootStyle m)(name \<mapsto> v)\<rparr>"

definition classList_remove :: "string list \<Rightarrow> monitor \<Rightarrow> monitor" where
  "classList_remove names m = m\<lparr>rootClasses := filter (\<lambda>c. c \<notin> set names) (rootClasses m)\<rparr>"

definition classList_add :: "string \<Rightarrow> monitor \<Rightarrow> monitor" where
  "classList_add name m =
     (if name \<in> set (rootClasses m) then m else m\<lparr>rootClasses := rootClasses m @ [name]\<rparr>)"

definition tier_name :: "tier \<Rightarrow> string" where
  "tier_name t = (case t of Low \<Rightarrow> ''low'' | Medium \<Rightarrow> ''medium'' | High \<Rightarrow> ''high'')"

definition applyCSSVariables :: "monitor \<Rightarrow> monitor" where
  "applyCSSVariables m =
     (let m1 = (if reduceAnimationDuration (degradation m)
                then setProperty ''--duration-slow'' ''250ms''
                       (setProperty ''--duration-base'' ''150ms''
                         (setProperty ''--duration-fast'' ''100ms'' m))
                else setProperty ''--duration-slow'' ''500ms''
                       (setProperty ''--duration-base'' ''300ms''
                         (setProperty ''--duration-fast'' ''150ms'' m)))
      in if reduceBlurEffects (degradation m)
         then setProperty ''--glass-blur'' ''10px'' m1
         else setProperty ''--glass-blur'' ''20px'' m1)"

definition applyCSSClasses :: "monitor \<Rightarrow> monitor" where
  "applyCSSClasses m =
     (let d = degradation m;
          m1 = classList_remove [''perf-low'', ''perf-medium'', ''perf-high''] m;
          m2 = classList_remove [''reduced-motion''] m1;
          m3 = classList_remove [''no-complex-animations''] m2;
          m4 = classList_remove [''no-parallax''] m3;
          m5 = classList_remove [''reduced-blur''] m4;
          m6 = classList_add (''perf-'' @ tier_name (deviceTier (performanceData m))) m5;
          m7 = (if isReducedMotion (performanceData m) then classList_add ''reduced-motion'' m6 else m6);
          m8 = (if disableComplexAnimations d then classList_add ''no-complex-animations'' m7 else m7);
          m9 = (if disableParallax d then classList_add ''no-parallax'' m8 else m8)
      in if reduceBlurEffects d then classList_add ''reduced-blur'' m9 else m9)"

subsection \<open>The degradation controller\<close>

text \<open>
  \<open>applyDegradationStrategy\<close>: the five fields are reset, then set from the reduced-motion
  preference or, without it, from the tier; the result is mirrored to the document root.
\<close>

definition applyDegradationStrategy :: "monitor \<Rightarrow> monitor" where
  "applyDegradationStrategy m =
     (let config0 = (degradation m)\<lparr> disableComplexAnimations := False,
            reduceAnimationDuration := False, disableParallax := False,
            reduceBlurEffects := False, limitConcurrentAnimations := 3 \<rparr>;
          config1 =
            (if isReducedMotion (performanceData m)
             then config0\<lparr> disableComplexAnimations := True, disableParallax := True,
                    reduceBlurEffects := True, limitConcurrentAnimations := 1 \<rparr>
             else (case deviceTier (performanceData m) of
                     Low \<Rightarrow> config0\<lparr> disableComplexAnimations := True,
                             reduceAnimationDuration := True, disableParallax := True,
                             reduceBlurEffects := True, limitConcurrentAnimations := 1 \<rparr>
                   | Medium \<Rightarrow> config0\<lparr> reduceAnimationDuration := True,
                             disableParallax := True, limitConcurrentAnimations := 2 \<rparr>
                   | High \<Rightarrow> config0\<lparr> limitConcurrentAnimations := 5 \<rparr>))
      in log ''Degradation strategy applied'' ''info''
           (applyCSSClasses (applyCSSVariables (m\<lparr>degradation := config1\<rparr>))))"

text \<open>\<open>getAverageFPS\<close>: 60 on an empty history, else the rounded mean of the history.\<close>

definition getAverageFPS :: "monitor \<Rightarrow> int" where
  "getAverageFPS m =
     (let history = fpsHistory (performanceData m)
      in if length history = 0 then 60
         else (let sum = foldl (\<lambda>a b. a + b) 0 history
               in Math_round (real_of_int sum / real (length history))))"

definition setTier :: "tier \<Rightarrow> monitor \<Rightarrow> monitor" where
  "setTier t m = m\<lparr>performanceData := (performanceData m)\<lparr>deviceTier := t\<rparr>\<rparr>"

definition checkPerformanceDegradation :: "monitor \<Rightarrow> monitor" where
  "checkPerformanceDegradation m =
     (let avgFPS = getAverageFPS m;
          n = length (fpsHistory (performanceData m));
          t = deviceTier (performanceData m)
      in if avgFPS < lowFPS \<and> n \<ge> 5 then
           (if t \<noteq> Low
            then log ''Performance degraded to low tier'' ''info''
                   (applyDegradationStrategy (setTier Low m))
            else m)
         else if avgFPS < mediumFPS \<and> n \<ge> 5 then
           (if t = High
            then log ''Performance degraded to medium tier'' ''info''
                   (applyDegradationStrategy (setTier Medium m))
            else m)
         else if avgFPS \<ge> highFPS \<and> n \<ge> 5 then
           (if t \<noteq> High
            then log ''Performance improved to high tier'' ''info''
                   (applyDegradationStrategy (setTier High m))
            else m)
         else m)"

subsection \<open>The capability profiler\<close>

text \<open>
  What the profiler reads from the host: the hardware hints (missing when the browser does
  not report them), the effective type of the network connection when there is one, whether
  the user agent string matches the mobile pattern, and whether the media query
  \<open>prefers-reduced-motion: reduce\<close> matches.
\<close>

record navigator =
  hardwareConcurrency :: "nat option"
  deviceMemory :: "real option"
  effectiveType :: "string option"
  mobileUserAgent :: bool
  prefersReducedMotion :: bool

definition detectLowEndDevice :: "navigator \<Rightarrow> bool" where
  "detectLowEndDevice nav =
     (if js_or (hardwareConcurrency nav) 2 \<le> 2 then True
      else if js_or (deviceMemory nav) 4 \<le> 2 then True
      else if effectiveType nav = Some ''slow-2g'' \<or> effectiveType nav = Some ''2g'' then True
      else False)"

definition setReducedMotion :: "bool \<Rightarrow> monitor \<Rightarrow> monitor" where
  "setReducedMotion b m = m\<lparr>performanceData := (performanceData m)\<lparr>isReducedMotion := b\<rparr>\<rparr>"

definition detectReducedMotion :: "navigator \<Rightarrow> monitor \<Rightarrow> monitor" where
  "detectReducedMotion nav m =
     (let m1 = setReducedMotion (prefersReducedMotion nav) m
      in if mobileUserAgent nav \<or> detectLowEndDevice nav then setReducedMotion True m1 else m1)"

text \<open>The listener that \<open>detectReducedMotion\<close> subscribes to changes of the media query.\<close>

definition onReducedMotionChange :: "bool \<Rightarrow> monitor \<Rightarrow> monitor" where
  "onReducedMotionChange matches m =
     log ''Reduced motion preference changed'' ''info''
       (applyDegradationStrategy (setReducedMotion matches m))"

text \<open>
  \<open>detectDevicePerformance\<close>: \<open>duration\<close> is the time the benchmark loop took, the
  difference of the two readings of \<open>performance.now()\<close>.
\<close>

definition detectDevicePerformance :: "real \<Rightarrow> navigator \<Rightarrow> monitor \<Rightarrow> monitor" where
  "detectDevicePerformance duration nav m =
     (let m1 = (if duration > 100 then setTier Low m
                else if duration > 50 then setTier Medium m
                else setTier High m);
          cores = js_or (hardwareConcurrency nav) 2;
          memory = js_or (deviceMemory nav) 4;
          m2 = (if cores \<le> 2 \<or> memory \<le> 2
                then (if deviceTier (performanceData m1) = High then setTier Medium m1 else m1)
                else m1)
      in log ''Device performance detected'' ''info'' m2)"

subsection \<open>The live sampler\<close>

text \<open>The two variables that the frame callback \<open>measureFPS\<close> closes over.\<close>

record fpsLoop =
  frameCount :: nat
  lastTime :: real

text \<open>
  One run of the frame callback at time \<open>currentTime\<close>; the callback re-arms itself, so the
  host calls it again on the next frame.
\<close>

definition measureFPS :: "real \<Rightarrow> fpsLoop \<times> monitor \<Rightarrow> fpsLoop \<times> monitor" where
  "measureFPS currentTime lm =
     (let l = fst lm; m = snd lm;
          count = frameCount l + 1;
          elapsed = currentTime - lastTime l
      in if elapsed \<ge> fpsWindow then
           (let sample = Math_round ((real count * 1000) / elapsed);
                pd1 = (performanceData m)\<lparr>fps := sample\<rparr>;
                pd2 = pd1\<lparr>fpsHistory := fpsHistory pd1 @ [sample]\<rparr>;
                pd3 = (if length (fpsHistory pd2) > 30
                       then pd2\<lparr>fpsHistory := tl (fpsHistory pd2)\<rparr> else pd2)
            in (\<lparr>frameCount = 0, lastTime = currentTime\<rparr>,
                checkPerformanceDegradation (m\<lparr>performanceData := pd3\<rparr>)))
         else (l\<lparr>frameCount := count\<rparr>, m))"

text \<open>A performance entry delivered by the observer, and the clock read while handling it.\<close>

record perfEntry =
  pe_duration :: real
  pe_startTime :: real

definition onPerformanceEntry :: "real \<Rightarrow> perfEntry \<Rightarrow> monitor \<Rightarrow> monitor" where
  "onPerformanceEntry now entry m =
     (if pe_duration entry > longTaskThreshold then
        (let pd1 = (performanceData m)\<lparr>longTasks := longTasks (performanceData m) @
                     [\<lparr>lt_duration = pe_duration entry, lt_startTime = pe_startTime entry,
                       lt_timestamp = now\<rparr>]\<rparr>;
             pd2 = (if length (longTasks pd1) > 10
                    then pd1\<lparr>longTasks := tl (longTasks pd1)\<rparr> else pd1)
         in log ''Long task detected'' ''info'' (m\<lparr>performanceData := pd2\<rparr>))
      else m)"

text \<open>The observer callback: the loop over \<open>list.getEntries()\<close>.\<close>

fun onPerformanceEntries :: "(real \<times> perfEntry) list \<Rightarrow> monitor \<Rightarrow> monitor" where
  "onPerformanceEntries [] m = m"
| "onPerformanceEntries (e # es) m = onPerformanceEntries es (onPerformanceEntry (fst e) (snd e) m)"

subsection \<open>The animation admission controller\<close>

definition registerAnimation :: "string \<Rightarrow> monitor \<Rightarrow> bool \<times> monitor" where
  "registerAnimation animationId m =
     (if Set_size (activeAnimations (performanceData m))
           \<ge> limitConcurrentAnimations (degradation m)
      then (False, log ''Animation limit reached, skipping'' ''info'' m)
      else (True, m\<lparr>performanceData := (performanceData m)
              \<lparr>activeAnimations := Set_add animationId (activeAnimations (performanceData m))\<rparr>\<rparr>))"

definition unregisterAnimation :: "string \<Rightarrow> monitor \<Rightarrow> monitor" where
  "unregisterAnimation animationId m =
     m\<lparr>performanceData := (performanceData m)
        \<lparr>activeAnimations := Set_delete animationId (activeAnimations (performanceData m))\<rparr>\<rparr>"

subsection \<open>Lifecycle\<close>

definition pauseMonitoring :: "monitor \<Rightarrow> monitor" where
  "pauseMonitoring m =
     log ''Monitoring paused'' ''info''
       (m\<lparr>performanceData := (performanceData m)\<lparr>activeAnimations := {||}\<rparr>\<rparr>)"

definition resumeMonitoring :: "monitor \<Rightarrow> monitor" where
  "resumeMonitoring m = log ''Monitoring resumed'' ''info'' m"

definition onVisibilityChange :: "bool \<Rightarrow> monitor \<Rightarrow> monitor" where
  "onVisibilityChange hidden m = (if hidden then pauseMonitoring m else resumeMonitoring m)"

text \<open>The debounced resize listener, when its timer fires.\<close>

definition onResize :: "real \<Rightarrow> navigator \<Rightarrow> monitor \<Rightarrow> monitor" where
  "onResize duration nav m = applyDegradationStrategy (detectDevicePerformance duration nav m)"

definition startMonitoring :: "monitor \<Rightarrow> monitor" where
  "startMonitoring m =
     (if isMonitoring (performanceData m) then m
      else m\<lparr>performanceData := (performanceData m)\<lparr>isMonitoring := True\<rparr>\<rparr>)"

definition init :: "real \<Rightarrow> navigator \<Rightarrow> monitor \<Rightarrow> monitor" where
  "init duration nav m =
     log ''PerformanceMonitor initialized'' ''info''
       (startMonitoring
         (applyDegradationStrategy
           (detectDevicePerformance duration nav (detectReducedMotion nav m))))"

subsection \<open>Runs of the monitor\<close>

text \<open>
  Everything that can happen to the monitor on the event loop, one callback at a time:
  \<open>init\<close> (with the benchmark duration and the time at which frame sampling starts), a frame,
  a delivery of the performance observer, a change of the reduced-motion media query, the
  resize timer, a visibility change, and calls of the two admission functions. The frame
  loop exists once monitoring has been started.
\<close>

datatype event =
    Init real real navigator
  | Frame real
  | PerformanceEntries "(real \<times> perfEntry) list"
  | ReducedMotionChange bool
  | Resize real navigator
  | VisibilityChange bool
  | RegisterAnimation string
  | UnregisterAnimation string

fun dispatch :: "fpsLoop option \<times> monitor \<Rightarrow> event \<Rightarrow> fpsLoop option \<times> monitor" where
  "dispatch (l, m) (Init duration now nav) =
     ((if isMonitoring (performanceData m) then l
       else Some \<lparr>frameCount = 0, lastTime = now\<rparr>),
      init duration nav m)"
| "dispatch (l, m) (Frame currentTime) =
     (case l of
        None \<Rightarrow> (l, m)
      | Some loop \<Rightarrow> (let r = measureFPS currentTime (loop, m) in (Some (fst r), snd r)))"
| "dispatch (l, m) (PerformanceEntries es) = (l, onPerformanceEntries es m)"
| "dispatch (l, m) (ReducedMotionChange matches) = (l, onReducedMotionChange matches m)"
| "dispatch (l, m) (Resize duration nav) = (l, onResize duration nav m)"
| "dispatch (l, m) (VisibilityChange hidden) = (l, onVisibilityChange hidden m)"
| "dispatch (l, m) (RegisterAnimation a) = (l, snd (registerAnimation a m))"
| "dispatch (l, m) (UnregisterAnimation a) = (l, unregisterAnimation a m)"

definition run :: "event list \<Rightarrow> monitor" where
  "run es = snd (foldl dispatch (None, initial) es)"

subsection \<open>Notions used to state the properties\<close>

text \<open>The arithmetic mean of a frame-rate history.\<close>

definition mean :: "int list \<Rightarrow> real" where
  "mean h = real_of_int (sum_list h) / real (length h)"

text \<open>
  The transition rule in the words of the specification: a mean below 30 forces the low
  tier; else a mean below 50 takes a high tier to medium; else a mean of at least 58 takes
  a tier that is not high to high; otherwise the tier stays.
\<close>

definition transition_rule :: "int \<Rightarrow> tier \<Rightarrow> tier" where
  "transition_rule avg t =
     (if avg < 30 then Low
      else if avg < 50 \<and> t = High then Medium
      else if avg \<ge> 58 \<and> t \<noteq> High then High
      else t)"

text \<open>How often the policy has been recomputed, as the console shows it.\<close>

definition strategyRuns :: "monitor \<Rightarrow> nat" where
  "strategyRuns m =
     length (filter (\<lambda>e. e = (''info'', ''Degradation strategy applied'')) (console m))"

text \<open>The last \<open>n\<close> entries of a history.\<close>

definition most_recent :: "nat \<Rightarrow> 'a list \<Rightarrow> 'a list" where
  "most_recent n xs = drop (length xs - n) xs"

section \<open>AnimationOptimizer: \<open>animate\<close> and \<open>shouldAnimate\<close>\<close>

text \<open>
  The state \<open>animate\<close> works on: the global \<open>window.PerformanceMonitor\<close> (missing when the
  monitor script is not loaded), state of the calling page that its callbacks can reach
  (here a list of numbers), the variables closed over by the running animations, and the
  frames requested from the host and still pending, each with the animation it belongs to.
\<close>

text \<open>An exception: the \<open>TypeError\<close> of a call on the missing monitor, or whatever a
  callback throws.\<close>

datatype js_error = TypeError | Thrown

record closure =
  c_id :: "string option"
  c_startTime :: "real option"
  c_cancelled :: bool
  c_rafId :: "nat option"

record window =
  PerformanceMonitor :: "monitor option"
  pageLog :: "real list"
  closures :: "closure list"
  rafPending :: "(nat \<times> nat) list"
  rafCounter :: nat

text \<open>
  A call either returns a value or throws; in both cases it leaves a state behind. The
  callback handed to \<open>animate\<close> is arbitrary code of the caller: given the progress, it may
  change anything it can reach, the monitor included, and it may throw.
\<close>

type_synonym 'a result = "(js_error + 'a) \<times> window"

type_synonym callback = "real \<Rightarrow> window \<Rightarrow> unit result"

text \<open>The object returned by \<open>animate\<close>: its \<open>cancel\<close> is the empty function, or the
  cancel function of the animation whose variables are at the given index.\<close>

datatype cancelHandle = NoopCancel | CancelAnimation nat

text \<open>Truthiness of the optional id: \<open>undefined\<close> and the empty string are falsy.\<close>

definition truthy :: "string option \<Rightarrow> bool" where
  "truthy x = (case x of None \<Rightarrow> False | Some v \<Rightarrow> v \<noteq> [])"

definition shouldAnimate :: "window \<Rightarrow> bool" where
  "shouldAnimate w =
     (case PerformanceMonitor w of
        None \<Rightarrow> True
      | Some m \<Rightarrow>
          if isReducedMotion (performanceData m) then False
          else if deviceTier (performanceData m) = Low then False
          else True)"

definition requestAnimationFrame :: "nat \<Rightarrow> window \<Rightarrow> nat \<times> window" where
  "requestAnimationFrame addr w =
     (let r = rafCounter w + 1
      in (r, w\<lparr>rafCounter := r, rafPending := rafPending w @ [(r, addr)]\<rparr>))"

definition cancelAnimationFrame :: "nat \<Rightarrow> window \<Rightarrow> window" where
  "cancelAnimationFrame r w = w\<lparr>rafPending := filter (\<lambda>p. fst p \<noteq> r) (rafPending w)\<rparr>"

text \<open>The assignment \<open>rafId = ...\<close> to the variable of the animation at \<open>addr\<close>.\<close>

definition setRafId :: "nat \<Rightarrow> nat \<Rightarrow> window \<Rightarrow> window" where
  "setRafId addr r w =
     (if addr < length (closures w)
      then w\<lparr>closures := (closures w)[addr := (closures w ! addr)\<lparr>c_rafId := Some r\<rparr>]\<rparr>
      else w)"

text \<open>\<open>if (id) window.PerformanceMonitor.unregisterAnimation(id)\<close>.\<close>

definition unregisterIfId :: "string option \<Rightarrow> window \<Rightarrow> unit result" where
  "unregisterIfId ident w =
     (if truthy ident then
        (case PerformanceMonitor w of
           None \<Rightarrow> (Inl TypeError, w)
         | Some m \<Rightarrow> (Inr (), w\<lparr>PerformanceMonitor := Some (unregisterAnimation (the ident) m)\<rparr>))
      else (Inr (), w))"

text \<open>
  \<open>animate(callback, id)\<close>. On the two early paths the callback is called with progress 1
  and, if it returns, the handle with the empty cancel function is returned; an exception
  of the callback leaves \<open>animate\<close>, which has no handler. Otherwise the variables of a new
  animation are created and its first frame is requested.
\<close>

definition animate :: "callback \<Rightarrow> string option \<Rightarrow> window \<Rightarrow> cancelHandle result" where
  "animate cb ident w =
     (if \<not> shouldAnimate w then
        (let r = cb 1 w
         in (case fst r of Inl e \<Rightarrow> Inl e | Inr u \<Rightarrow> Inr NoopCancel, snd r))
      else
        (let start = (\<lambda>w0.
               let addr = length (closures w0);
                   w1 = w0\<lparr>closures := closures w0 @
                          [\<lparr>c_id = ident, c_startTime = None, c_cancelled = False, c_rafId = None\<rparr>]\<rparr>;
                   rw = requestAnimationFrame addr w1
               in (Inr (CancelAnimation addr), setRafId addr (fst rw) (snd rw)))
         in if truthy ident then
              (case PerformanceMonitor w of
                 None \<Rightarrow> (Inl TypeError, w)
               | Some m \<Rightarrow>
                   (let res = registerAnimation (the ident) m;
                        w0 = w\<lparr>PerformanceMonitor := Some (snd res)\<rparr>
                    in if \<not> fst res then
                         (let r = cb 1 w0
                          in (case fst r of Inl e \<Rightarrow> Inl e | Inr u \<Rightarrow> Inr NoopCancel, snd r))
                       else start w0))
            else start w))"

text \<open>
  The frame function of a running animation, called by the host with the frame's time
  stamp once the host has taken the animation's request off its queue. The function closes
  over the callback given to \<open>animate\<close>, which is passed here. An index that names no
  animation does nothing.
\<close>

definition animationFrame :: "callback \<Rightarrow> nat \<Rightarrow> real \<Rightarrow> window \<Rightarrow> unit result" where
  "animationFrame cb addr timestamp w0 =
     (if addr \<ge> length (closures w0) then (Inr (), w0)
      else
        (let w = w0\<lparr>rafPending := filter (\<lambda>p. snd p \<noteq> addr) (rafPending w0)\<rparr>;
             c = closures w ! addr
         in if c_cancelled c then unregisterIfId (c_id c) w
            else
              (let startTime = (case c_startTime c of
                                  None \<Rightarrow> timestamp
                                | Some t \<Rightarrow> if t = 0 then timestamp else t);
                   progress = min ((timestamp - startTime) / 300) 1;
                   r = cb progress
                         (w\<lparr>closures := (closures w)[addr := c\<lparr>c_startTime := Some startTime\<rparr>]\<rparr>)
               in (case fst r of
                     Inl e \<Rightarrow> (Inl e, snd r)
                   | Inr u \<Rightarrow>
                       if progress < 1 then
                         (let rw = requestAnimationFrame addr (snd r)
                          in (Inr (), setRafId addr (fst rw) (snd rw)))
                       else unregisterIfId (c_id c) (snd r)))))"

text \<open>Invoking the \<open>cancel\<close> function of a returned handle.\<close>

definition cancel :: "cancelHandle \<Rightarrow> window \<Rightarrow> unit result" where
  "cancel h w =
     (case h of
        NoopCancel \<Rightarrow> (Inr (), w)
      | CancelAnimation addr \<Rightarrow>
          if addr \<ge> length (closures w) then (Inr (), w)
          else
            (let c = closures w ! addr;
                 w1 = w\<lparr>closures := (closures w)[addr := c\<lparr>c_cancelled := True\<rparr>]\<rparr>;
                 w2 = (case c_rafId c of
                         None \<Rightarrow> w1
                       | Some r \<Rightarrow> if r = 0 then w1 else cancelAnimationFrame r w1)
             in unregisterIfId (c_id c) w2))"

section \<open>Concrete hosts and states used in the examples\<close>

definition nav8 :: navigator where
  "nav8 = \<lparr>hardwareConcurrency = Some 8, deviceMemory = Some 8, effectiveType = Some ''4g'',
            mobileUserAgent = False, prefersReducedMotion = False\<rparr>"

definition nav_no_hints :: navigator where
  "nav_no_hints = \<lparr>hardwareConcurrency = None, deviceMemory = None, effectiveType = None,
            mobileUserAgent = False, prefersReducedMotion = False\<rparr>"

definition sample_monitor :: "tier \<Rightarrow> int list \<Rightarrow> monitor" where
  "sample_monitor t h =
     initial\<lparr>performanceData := (performanceData initial)\<lparr>fpsHistory := h, deviceTier := t\<rparr>\<rparr>"

definition task :: "real \<Rightarrow> longTask" where
  "task t = \<lparr>lt_duration = 60, lt_startTime = t, lt_timestamp = t\<rparr>"

definition full_monitor :: monitor where
  "full_monitor = initial\<lparr>performanceData := (performanceData initial)
     \<lparr>fpsHistory := [1, 2, 3, 4, 5, 6, 7, 8, 9, 10, 11, 12, 13, 14, 15, 16, 17, 18, 19, 20,
                      21, 22, 23, 24, 25, 26, 27, 28, 29, 30],
      longTasks := [task 1, task 2, task 3, task 4, task 5, task 6, task 7, task 8, task 9, task 10]\<rparr>\<rparr>"

definition one_active :: monitor where
  "one_active = initial\<lparr>performanceData := (performanceData initial)\<lparr>activeAnimations := {|''a''|}\<rparr>\<rparr>"

text \<open>Both histories are within their caps.\<close>

definition histories_bounded :: "monitor \<Rightarrow> bool" where
  "histories_bounded m \<longleftrightarrow>
     length (fpsHistory (performanceData m)) \<le> 30 \<and> length (longTasks (performanceData m)) \<le> 10"

definition three_active :: monitor where
  "three_active = initial\<lparr>performanceData := (performanceData initial)
     \<lparr>activeAnimations := {|''a'', ''b'', ''c''|}\<rparr>\<rparr>"

text \<open>A run in which the limit shrinks while two tickets are outstanding.\<close>

definition crowded :: monitor where
  "crowded = run [Init 10 0 nav8, RegisterAnimation ''a'', RegisterAnimation ''b'',
                  ReducedMotionChange True]"

definition window0 :: "monitor \<Rightarrow> window" where
  "window0 m = \<lparr>PerformanceMonitor = Some m, pageLog = [], closures = [],
                 rafPending = [], rafCounter = 0\<rparr>"

definition low_one_active :: monitor where
  "low_one_active = setTier Low one_active"

text \<open>Three callbacks: one that notes the progress it is given and returns, one that
  throws, and one that releases the ticket \<open>a\<close> of the monitor.\<close>

definition recording_callback :: callback where
  "recording_callback progress w = (Inr (), w\<lparr>pageLog := pageLog w @ [progress]\<rparr>)"

definition throwing_callback :: callback where
  "throwing_callback progress w = (Inl Thrown, w)"

definition releasing_callback :: callback where
  "releasing_callback progress w = unregisterIfId (Some ''a'') w"

section \<open>Basic facts\<close>

subsection \<open>What each method leaves alone\<close>

lemma log_fields [simp]:
  "performanceData (log a b m) = performanceData m"
  "degradation (log a b m) = degradation m"
  "rootStyle (log a b m) = rootStyle m"
  "rootClasses (log a b m) = rootClasses m"
  by (simp_all add: log_def)

lemma console_log [simp]: "console (log a b m) = console m @ [(b, a)]"
  by (simp add: log_def enableLogging_def)

lemma applyCSSVariables_fields [simp]:
  "performanceData (applyCSSVariables m) = performanceData m"
  "degradation (applyCSSVariables m) = degradation m"
  "console (applyCSSVariables m) = console m"
  by (simp_all add: applyCSSVariables_def setProperty_def Let_def)

lemma classList_fields [simp]:
  "performanceData (classList_add a m) = performanceData m"
  "degradation (classList_add a m) = degradation m"
  "console (classList_add a m) = console m"
  "performanceData (classList_remove as m) = performanceData m"
  "degradation (classList_remove as m) = degradation m"
  "console (classList_remove as m) = console m"
  by (simp_all add: classList_add_def classList_remove_def)

lemma applyCSSClasses_fields [simp]:
  "performanceData (applyCSSClasses m) = performanceData m"
  "degradation (applyCSSClasses m) = degradation m"
  "console (applyCSSClasses m) = console m"
  by (simp_all add: applyCSSClasses_def Let_def)

lemma applyDegradationStrategy_performanceData [simp]:
  "performanceData (applyDegradationStrategy m) = performanceData m"
  by (simp add: applyDegradationStrategy_def Let_def)

lemma applyDegradationStrategy_console [simp]:
  "console (applyDegradationStrategy m) = console m @ [(''info'', ''Degradation strategy applied'')]"
  by (simp add: applyDegradationStrategy_def Let_def)

lemma applyDegradationStrategy_limit:
  "limitConcurrentAnimations (degradation (applyDegradationStrategy m)) =
     (if isReducedMotion (performanceData m) then 1
      else case deviceTier (performanceData m) of Low \<Rightarrow> 1 | Medium \<Rightarrow> 2 | High \<Rightarrow> 5)"
  by (simp add: applyDegradationStrategy_def Let_def split: tier.split)

lemma setTier_fields [simp]:
  "deviceTier (performanceData (setTier t m)) = t"
  "fpsHistory (performanceData (setTier t m)) = fpsHistory (performanceData m)"
  "longTasks (performanceData (setTier t m)) = longTasks (performanceData m)"
  "activeAnimations (performanceData (setTier t m)) = activeAnimations (performanceData m)"
  "isReducedMotion (performanceData (setTier t m)) = isReducedMotion (performanceData m)"
  "degradation (setTier t m) = degradation m"
  "console (setTier t m) = console m"
  by (simp_all add: setTier_def)

lemma setReducedMotion_fields [simp]:
  "isReducedMotion (performanceData (setReducedMotion b m)) = b"
  "deviceTier (performanceData (setReducedMotion b m)) = deviceTier (performanceData m)"
  "fpsHistory (performanceData (setReducedMotion b m)) = fpsHistory (performanceData m)"
  "longTasks (performanceData (setReducedMotion b m)) = longTasks (performanceData m)"
  "activeAnimations (performanceData (setReducedMotion b m)) = activeAnimations (performanceData m)"
  "degradation (setReducedMotion b m) = degradation m"
  "console (setReducedMotion b m) = console m"
  by (simp_all add: setReducedMotion_def)

lemma detectDevicePerformance_fields [simp]:
  "fpsHistory (performanceData (detectDevicePerformance d nav m)) = fpsHistory (performanceData m)"
  "longTasks (performanceData (detectDevicePerformance d nav m)) = longTasks (performanceData m)"
  "isReducedMotion (performanceData (detectDevicePerformance d nav m)) = isReducedMotion (performanceData m)"
  "activeAnimations (performanceData (detectDevicePerformance d nav m)) = activeAnimations (performanceData m)"
  "degradation (detectDevicePerformance d nav m) = degradation m"
  by (simp_all add: detectDevicePerformance_def Let_def)

lemma detectReducedMotion_fields [simp]:
  "isReducedMotion (performanceData (detectReducedMotion nav m)) =
     (prefersReducedMotion nav \<or> mobileUserAgent nav \<or> detectLowEndDevice nav)"
  "fpsHistory (performanceData (detectReducedMotion nav m)) = fpsHistory (performanceData m)"
  "longTasks (performanceData (detectReducedMotion nav m)) = longTasks (performanceData m)"
  "activeAnimations (performanceData (detectReducedMotion nav m)) = activeAnimations (performanceData m)"
  "deviceTier (performanceData (detectReducedMotion nav m)) = deviceTier (performanceData m)"
  "degradation (detectReducedMotion nav m) = degradation m"
  by (auto simp add: detectReducedMotion_def Let_def)

lemma startMonitoring_fields [simp]:
  "isReducedMotion (performanceData (startMonitoring m)) = isReducedMotion (performanceData m)"
  "activeAnimations (performanceData (startMonitoring m)) = activeAnimations (performanceData m)"
  "deviceTier (performanceData (startMonitoring m)) = deviceTier (performanceData m)"
  "fpsHistory (performanceData (startMonitoring m)) = fpsHistory (performanceData m)"
  "longTasks (performanceData (startMonitoring m)) = longTasks (performanceData m)"
  "degradation (startMonitoring m) = degradation m"
  by (simp_all add: startMonitoring_def)

lemma init_histories [simp]:
  "fpsHistory (performanceData (init d nav m)) = fpsHistory (performanceData m)"
  "longTasks (performanceData (init d nav m)) = longTasks (performanceData m)"
  by (simp_all add: init_def)

lemma checkPerformanceDegradation_histories [simp]:
  "fpsHistory (performanceData (checkPerformanceDegradation m)) = fpsHistory (performanceData m)"
  "longTasks (performanceData (checkPerformanceDegradation m)) = longTasks (performanceData m)"
  by (simp_all add: checkPerformanceDegradation_def Let_def)

lemma registerAnimation_fields [simp]:
  "fpsHistory (performanceData (snd (registerAnimation a m))) = fpsHistory (performanceData m)"
  "longTasks (performanceData (snd (registerAnimation a m))) = longTasks (performanceData m)"
  "isReducedMotion (performanceData (snd (registerAnimation a m))) = isReducedMotion (performanceData m)"
  "deviceTier (performanceData (snd (registerAnimation a m))) = deviceTier (performanceData m)"
  "degradation (snd (registerAnimation a m)) = degradation m"
  by (simp_all add: registerAnimation_def)

subsection \<open>Rounding and the average\<close>

lemma foldl_plus_sum_list: "foldl (\<lambda>a b. a + b) (a::int) xs = a + sum_list xs"
  by (induction xs arbitrary: a) simp_all

lemma Math_round_divide:
  assumes "0 < n"
  shows "Math_round (real_of_int s / real n) = (2 * s + int n) div (2 * int n)"
proof -
  have "real_of_int s / real n + 1 / 2 = real_of_int (2 * s + int n) / real_of_int (2 * int n)"
    using assms by (simp add: field_simps)
  then show ?thesis
    unfolding Math_round_def by (simp only: floor_divide_of_int_eq)
qed

lemma getAverageFPS_div:
  "getAverageFPS m =
     (let h = fpsHistory (performanceData m)
      in if h = [] then 60 else (2 * sum_list h + int (length h)) div (2 * int (length h)))"
  by (simp add: getAverageFPS_def Let_def foldl_plus_sum_list Math_round_divide)

lemma getAverageFPS_mean:
  "getAverageFPS m =
     (if fpsHistory (performanceData m) = [] then 60
      else Math_round (mean (fpsHistory (performanceData m))))"
  by (simp add: getAverageFPS_def Let_def foldl_plus_sum_list mean_def)

section \<open>The average frame rate\<close>

text \<open>
  C8: \<open>getAverageFPS\<close> returns 60 on an empty history (not 0); on a history that is not
  empty it returns the arithmetic mean of the retained history rounded to the nearest
  integer, so that the result is within one half of the mean.
\<close>

theorem getAverageFPS_default_and_rounded_mean:
  "(fpsHistory (performanceData m) = [] \<longrightarrow> getAverageFPS m = 60 \<and> getAverageFPS m \<noteq> 0) \<and>
   (fpsHistory (performanceData m) \<noteq> [] \<longrightarrow>
      getAverageFPS m = Math_round (mean (fpsHistory (performanceData m))) \<and>
      real_of_int (getAverageFPS m) - 1 / 2 \<le> mean (fpsHistory (performanceData m)) \<and>
      mean (fpsHistory (performanceData m)) < real_of_int (getAverageFPS m) + 1 / 2)"
proof (cases "fpsHistory (performanceData m) = []")
  case True
  then show ?thesis by (simp add: getAverageFPS_mean)
next
  case False
  let ?x = "mean (fpsHistory (performanceData m))"
  have avg: "getAverageFPS m = \<lfloor>?x + 1 / 2\<rfloor>"
    using False by (simp add: getAverageFPS_mean Math_round_def)
  have near: "real_of_int (getAverageFPS m) - 1 / 2 \<le> ?x \<and> ?x < real_of_int (getAverageFPS m) + 1 / 2"
    unfolding avg by linarith
  have rounded: "getAverageFPS m = Math_round ?x"
    using False by (simp add: getAverageFPS_mean)
  show ?thesis
    using False rounded near by blast
qed

theorem getAverageFPS_default_and_rounded_mean_witness:
  "fpsHistory (performanceData initial) = [] \<and> getAverageFPS initial = 60 \<and>
   fpsHistory (performanceData (sample_monitor High [60, 58, 59, 60, 61])) \<noteq> [] \<and>
   getAverageFPS (sample_monitor High [60, 58, 59, 60, 61]) = 60 \<and>
   Math_round (mean [60, 58, 59, 60, 61]) = 60"
proof -
  have h: "fpsHistory (performanceData (sample_monitor High [60, 58, 59, 60, 61])) = [60, 58, 59, 60, 61]"
    by (simp add: sample_monitor_def)
  have e: "fpsHistory (performanceData initial) = []"
    by (simp add: initial_def)
  have r: "Math_round (mean [60, 58, 59, 60, 61]) = 60"
    by (simp add: Math_round_def mean_def)
  show ?thesis
    using getAverageFPS_default_and_rounded_mean [of initial]
      getAverageFPS_default_and_rounded_mean [of "sample_monitor High [60, 58, 59, 60, 61]"]
    by (simp add: h e r)
qed

section \<open>The policy under reduced motion\<close>

text \<open>
  C1: with the reduced-motion preference set, a policy evaluation gives the concurrency
  limit 1 and sets \<open>disableComplexAnimations\<close>, \<open>disableParallax\<close> and \<open>reduceBlurEffects\<close>,
  whatever the tier; but \<open>reduceAnimationDuration\<close> keeps the value \<open>False\<close> of the reset,
  so not all four toggles are set. The branch for the low tier sets all four.
\<close>

theorem applyDegradationStrategy_reducedMotion_policy:
  "degradation (applyDegradationStrategy (setReducedMotion True m)) =
     (degradation m)\<lparr> disableComplexAnimations := True, reduceAnimationDuration := False,
        disableParallax := True, reduceBlurEffects := True, limitConcurrentAnimations := 1 \<rparr> \<and>
   \<not> reduceAnimationDuration (degradation (applyDegradationStrategy (setReducedMotion True m))) \<and>
   reduceAnimationDuration (degradation (applyDegradationStrategy (setTier Low (setReducedMotion False m))))"
  by (simp add: applyDegradationStrategy_def Let_def)

section \<open>The capability profiler\<close>

lemma detectDevicePerformance_tier:
  "deviceTier (performanceData (detectDevicePerformance d nav m)) =
     (if d > 100 then Low
      else if d > 50 then Medium
      else if js_or (hardwareConcurrency nav) 2 \<le> 2 \<or> js_or (deviceMemory nav) 4 \<le> 2
           then Medium else High)"
  by (simp add: detectDevicePerformance_def Let_def)

text \<open>
  C4: a benchmark duration above 100 gives the low tier, one above 50 and at most 100 the
  medium tier, one of at most 50 the high tier; the high result is then demoted to medium
  exactly when the core count is at most 2 or the device memory is at most 2, and a medium
  or low result is not changed by the hints. The core count and the memory are the values
  the method compares, that is the hint or its default; for hints that are reported (the
  memory not being 0) they are the reported values.
\<close>

theorem detectDevicePerformance_classification:
  "(d > 100 \<longrightarrow> deviceTier (performanceData (detectDevicePerformance d nav m)) = Low) \<and>
   (50 < d \<and> d \<le> 100 \<longrightarrow> deviceTier (performanceData (detectDevicePerformance d nav m)) = Medium) \<and>
   (d \<le> 50 \<longrightarrow>
      (deviceTier (performanceData (detectDevicePerformance d nav m)) = Medium \<longleftrightarrow>
         js_or (hardwareConcurrency nav) 2 \<le> 2 \<or> js_or (deviceMemory nav) 4 \<le> 2) \<and>
      (deviceTier (performanceData (detectDevicePerformance d nav m)) = High \<longleftrightarrow>
         \<not> (js_or (hardwareConcurrency nav) 2 \<le> 2 \<or> js_or (deviceMemory nav) 4 \<le> 2))) \<and>
   (d \<le> 50 \<and> hardwareConcurrency nav = Some c \<and> deviceMemory nav = Some g \<and> g \<noteq> 0 \<longrightarrow>
      (deviceTier (performanceData (detectDevicePerformance d nav m)) = Medium \<longleftrightarrow> c \<le> 2 \<or> g \<le> 2) \<and>
      (deviceTier (performanceData (detectDevicePerformance d nav m)) = High \<longleftrightarrow> \<not> (c \<le> 2 \<or> g \<le> 2)))"
  by (auto simp add: detectDevicePerformance_tier js_or_def)

theorem detectDevicePerformance_classification_witness:
  "(150::real) > 100 \<and> deviceTier (performanceData (detectDevicePerformance 150 nav8 initial)) = Low \<and>
   (50::real) < 80 \<and> (80::real) \<le> 100 \<and>
   deviceTier (performanceData (detectDevicePerformance 80 nav8 initial)) = Medium \<and>
   (20::real) \<le> 50 \<and> hardwareConcurrency nav8 = Some 8 \<and> deviceMemory nav8 = Some 8 \<and> (8::real) \<noteq> 0 \<and>
   deviceTier (performanceData (detectDevicePerformance 20 nav8 initial)) = High \<and>
   hardwareConcurrency (nav8\<lparr>hardwareConcurrency := Some 2\<rparr>) = Some 2 \<and>
   deviceMemory (nav8\<lparr>hardwareConcurrency := Some 2\<rparr>) = Some 8 \<and>
   deviceTier (performanceData (detectDevicePerformance 20 (nav8\<lparr>hardwareConcurrency := Some 2\<rparr>) initial)) = Medium"
  using detectDevicePerformance_classification [of 150 nav8 initial 8 8]
    detectDevicePerformance_classification [of 80 nav8 initial 8 8]
    detectDevicePerformance_classification [of 20 nav8 initial 8 8]
    detectDevicePerformance_classification [of 20 "nav8\<lparr>hardwareConcurrency := Some 2\<rparr>" initial 2 8]
  by (simp add: nav8_def)

text \<open>
  C2, as stated, fails: with both hints absent a benchmark of 10 ms, a high result, ends in
  the medium tier, not the high one.
\<close>

theorem absent_hints_demote_counterexample:
  "deviceTier (performanceData (detectDevicePerformance 10 nav_no_hints initial)) = Medium \<and>
   deviceTier (performanceData (detectDevicePerformance 10 nav_no_hints initial)) \<noteq> High"
  by (simp add: detectDevicePerformance_tier nav_no_hints_def js_or_def)

text \<open>
  C2, amended: absent hints default to 2 cores and 4 GB. The memory default is adequate:
  with enough reported cores and no memory hint a high result stays high. The core default
  is not: it satisfies the demotion rule (2 is at most 2), so with the core hint absent a
  high benchmark result is demoted to medium.
\<close>

theorem absent_hints_defaults:
  "js_or (hardwareConcurrency (nav\<lparr>hardwareConcurrency := None\<rparr>)) 2 = 2 \<and>
   js_or (deviceMemory (nav\<lparr>deviceMemory := None\<rparr>)) 4 = 4 \<and>
   (d \<le> 50 \<longrightarrow>
      deviceTier (performanceData (detectDevicePerformance d (nav\<lparr>hardwareConcurrency := None\<rparr>) m)) = Medium) \<and>
   (d \<le> 50 \<and> 2 < c \<longrightarrow>
      deviceTier (performanceData
        (detectDevicePerformance d (nav\<lparr>hardwareConcurrency := Some c, deviceMemory := None\<rparr>) m)) = High)"
  by (simp add: detectDevicePerformance_tier js_or_def)

theorem absent_hints_defaults_witness:
  "(10::real) \<le> 50 \<and> (2::nat) < 8 \<and>
   deviceTier (performanceData (detectDevicePerformance 10 (nav_no_hints\<lparr>hardwareConcurrency := None\<rparr>) initial)) = Medium \<and>
   deviceTier (performanceData
        (detectDevicePerformance 10 (nav_no_hints\<lparr>hardwareConcurrency := Some 8, deviceMemory := None\<rparr>) initial)) = High"
  using absent_hints_defaults [of nav_no_hints 10 initial 8]
  by simp

section \<open>Tier transitions\<close>

lemma strategyRuns_log:
  "msg \<noteq> ''Degradation strategy applied'' \<Longrightarrow> strategyRuns (log msg lvl m) = strategyRuns m"
  by (simp add: strategyRuns_def)

lemma strategyRuns_apply:
  "strategyRuns (applyDegradationStrategy m) = Suc (strategyRuns m)"
  by (simp add: strategyRuns_def)

lemma strategyRuns_setTier [simp]: "strategyRuns (setTier t m) = strategyRuns m"
  by (simp add: strategyRuns_def)

lemma checkPerformanceDegradation_cases:
  assumes "length (fpsHistory (performanceData m)) \<ge> 5"
  shows "checkPerformanceDegradation m =
     (let t = deviceTier (performanceData m); t' = transition_rule (getAverageFPS m) t
      in if t' = t then m
         else log (if t' = Low then ''Performance degraded to low tier''
                   else if t' = Medium then ''Performance degraded to medium tier''
                   else ''Performance improved to high tier'') ''info''
                (applyDegradationStrategy (setTier t' m)))"
  using assms
  by (cases "deviceTier (performanceData m)")
     (simp_all add: checkPerformanceDegradation_def transition_rule_def Let_def
        lowFPS_def mediumFPS_def highFPS_def)

text \<open>
  C3: on a history of at least 5 samples, one evaluation of \<open>checkPerformanceDegradation\<close>
  takes the rounded mean of the whole retained history and moves the tier by the ordered
  rule (below 30: low; else below 50 from high: medium; else at least 58 from a tier that
  is not high: high; else no change). When the rule leaves the tier as it is, nothing at
  all changes, in particular for a mean from 50 to below 58 on the medium tier; when it
  changes the tier, the policy is recomputed for the new tier. So the policy is
  recomputed exactly when the tier changes.
\<close>

theorem checkPerformanceDegradation_transition:
  assumes "length (fpsHistory (performanceData m)) \<ge> 5"
  shows "getAverageFPS m = Math_round (mean (fpsHistory (performanceData m))) \<and>
    deviceTier (performanceData (checkPerformanceDegradation m))
      = transition_rule (getAverageFPS m) (deviceTier (performanceData m)) \<and>
    (transition_rule (getAverageFPS m) (deviceTier (performanceData m)) = deviceTier (performanceData m)
       \<longrightarrow> checkPerformanceDegradation m = m) \<and>
    (transition_rule (getAverageFPS m) (deviceTier (performanceData m)) \<noteq> deviceTier (performanceData m)
       \<longrightarrow> (\<exists>msg. checkPerformanceDegradation m =
              log msg ''info'' (applyDegradationStrategy
                (setTier (transition_rule (getAverageFPS m) (deviceTier (performanceData m))) m)))) \<and>
    strategyRuns (checkPerformanceDegradation m) =
      strategyRuns m +
        (if deviceTier (performanceData (checkPerformanceDegradation m)) \<noteq> deviceTier (performanceData m)
         then 1 else 0) \<and>
    (50 \<le> getAverageFPS m \<and> getAverageFPS m < 58 \<and> deviceTier (performanceData m) = Medium
       \<longrightarrow> checkPerformanceDegradation m = m)"
proof -
  let ?t = "deviceTier (performanceData m)"
  let ?t' = "transition_rule (getAverageFPS m) ?t"
  have ne: "fpsHistory (performanceData m) \<noteq> []"
    using assms by auto
  have avg: "getAverageFPS m = Math_round (mean (fpsHistory (performanceData m)))"
    using ne by (simp add: getAverageFPS_mean)
  have same: "?t' = ?t \<Longrightarrow> checkPerformanceDegradation m = m"
    by (simp add: checkPerformanceDegradation_cases [OF assms] Let_def)
  have changed: "?t' \<noteq> ?t \<Longrightarrow> \<exists>msg. checkPerformanceDegradation m =
      log msg ''info'' (applyDegradationStrategy (setTier ?t' m))"
    unfolding checkPerformanceDegradation_cases [OF assms] Let_def by (simp only: if_False) blast
  have tier: "deviceTier (performanceData (checkPerformanceDegradation m)) = ?t'"
    by (simp add: checkPerformanceDegradation_cases [OF assms] Let_def)
  have runs: "strategyRuns (checkPerformanceDegradation m) =
      strategyRuns m + (if ?t' \<noteq> ?t then 1 else 0)"
    by (simp add: checkPerformanceDegradation_cases [OF assms] Let_def
          strategyRuns_log strategyRuns_apply)
  have dead: "50 \<le> getAverageFPS m \<and> getAverageFPS m < 58 \<and> ?t = Medium \<Longrightarrow> ?t' = ?t"
    by (simp add: transition_rule_def)
  show ?thesis
    using avg same changed tier runs dead by simp
qed

theorem checkPerformanceDegradation_transition_witness:
  "length (fpsHistory (performanceData (sample_monitor High [20, 25, 22, 28, 24]))) \<ge> 5 \<and>
   getAverageFPS (sample_monitor High [20, 25, 22, 28, 24]) = 24 \<and>
   transition_rule 24 High \<noteq> High \<and>
   deviceTier (performanceData (checkPerformanceDegradation (sample_monitor High [20, 25, 22, 28, 24]))) = Low \<and>
   strategyRuns (checkPerformanceDegradation (sample_monitor High [20, 25, 22, 28, 24])) = 1 \<and>
   length (fpsHistory (performanceData (sample_monitor Medium [55, 54, 56, 55, 55]))) \<ge> 5 \<and>
   50 \<le> getAverageFPS (sample_monitor Medium [55, 54, 56, 55, 55]) \<and>
   getAverageFPS (sample_monitor Medium [55, 54, 56, 55, 55]) < 58 \<and>
   transition_rule 55 Medium = Medium \<and>
   checkPerformanceDegradation (sample_monitor Medium [55, 54, 56, 55, 55])
     = sample_monitor Medium [55, 54, 56, 55, 55]"
proof -
  have a: "getAverageFPS (sample_monitor High [20, 25, 22, 28, 24]) = 24"
    by (simp add: getAverageFPS_div sample_monitor_def initial_def)
  have b: "getAverageFPS (sample_monitor Medium [55, 54, 56, 55, 55]) = 55"
    by (simp add: getAverageFPS_div sample_monitor_def initial_def)
  have la: "length (fpsHistory (performanceData (sample_monitor High [20, 25, 22, 28, 24]))) \<ge> 5"
    by (simp add: sample_monitor_def)
  have lb: "length (fpsHistory (performanceData (sample_monitor Medium [55, 54, 56, 55, 55]))) \<ge> 5"
    by (simp add: sample_monitor_def)
  have ta: "deviceTier (performanceData (sample_monitor High [20, 25, 22, 28, 24])) = High"
    by (simp add: sample_monitor_def)
  have tb: "deviceTier (performanceData (sample_monitor Medium [55, 54, 56, 55, 55])) = Medium"
    by (simp add: sample_monitor_def)
  have ra: "strategyRuns (sample_monitor High [20, 25, 22, 28, 24]) = 0"
    by (simp add: sample_monitor_def strategyRuns_def initial_def)
  show ?thesis
    using checkPerformanceDegradation_transition [OF la]
      checkPerformanceDegradation_transition [OF lb] la lb
    by (simp add: a b ta tb ra transition_rule_def)
qed

section \<open>The sample histories\<close>

lemma most_recent_keep: "length xs < n \<Longrightarrow> most_recent n (xs @ [x]) = xs @ [x]"
  by (simp add: most_recent_def)

lemma most_recent_evict:
  "length xs = n \<Longrightarrow> 0 < n \<Longrightarrow> most_recent n (xs @ [x]) = tl (xs @ [x])"
  by (cases xs) (simp_all add: most_recent_def)

lemma length_most_recent: "length (most_recent n xs) \<le> n"
  by (simp add: most_recent_def)

lemma measureFPS_append:
  assumes "length (fpsHistory (performanceData m)) \<le> 30" and "currentTime - lastTime l \<ge> fpsWindow"
  shows "fpsHistory (performanceData (snd (measureFPS currentTime (l, m)))) =
           most_recent 30 (fpsHistory (performanceData m) @
             [Math_round (real (frameCount l + 1) * 1000 / (currentTime - lastTime l))])"
proof (cases "length (fpsHistory (performanceData m)) = 30")
  case True
  then show ?thesis
    using assms(2) by (simp add: measureFPS_def Let_def most_recent_evict)
next
  case False
  then have "length (fpsHistory (performanceData m)) < 30"
    using assms(1) by simp
  then show ?thesis
    using assms(2) by (simp add: measureFPS_def Let_def most_recent_keep)
qed

lemma measureFPS_longTasks [simp]:
  "longTasks (performanceData (snd (measureFPS currentTime (l, m)))) = longTasks (performanceData m)"
  by (simp add: measureFPS_def Let_def)

lemma measureFPS_idle:
  "currentTime - lastTime l < fpsWindow \<Longrightarrow> snd (measureFPS currentTime (l, m)) = m"
  by (simp add: measureFPS_def Let_def)

lemma onPerformanceEntry_append:
  assumes "length (longTasks (performanceData m)) \<le> 10" and "pe_duration e > 50"
  shows "longTasks (performanceData (onPerformanceEntry now e m)) =
           most_recent 10 (longTasks (performanceData m) @
             [\<lparr>lt_duration = pe_duration e, lt_startTime = pe_startTime e, lt_timestamp = now\<rparr>])"
proof (cases "length (longTasks (performanceData m)) = 10")
  case True
  then show ?thesis
    using assms(2) by (simp add: onPerformanceEntry_def Let_def longTaskThreshold_def most_recent_evict)
next
  case False
  then have "length (longTasks (performanceData m)) < 10"
    using assms(1) by simp
  then show ?thesis
    using assms(2) by (simp add: onPerformanceEntry_def Let_def longTaskThreshold_def most_recent_keep)
qed

lemma onPerformanceEntry_skip:
  "pe_duration e \<le> 50 \<Longrightarrow> onPerformanceEntry now e m = m"
  by (simp add: onPerformanceEntry_def longTaskThreshold_def)

lemma onPerformanceEntry_fpsHistory [simp]:
  "fpsHistory (performanceData (onPerformanceEntry now e m)) = fpsHistory (performanceData m)"
  by (simp add: onPerformanceEntry_def Let_def)

subsection \<open>The caps hold in every run\<close>

lemma histories_bounded_measureFPS:
  "histories_bounded m \<Longrightarrow> histories_bounded (snd (measureFPS t (l, m)))"
proof (cases "t - lastTime l \<ge> fpsWindow")
  case True
  assume "histories_bounded m"
  then show ?thesis
    using True by (simp add: histories_bounded_def measureFPS_append length_most_recent)
next
  case False
  assume "histories_bounded m"
  then show ?thesis
    using False by (simp add: measureFPS_idle)
qed

lemma histories_bounded_onPerformanceEntry:
  "histories_bounded m \<Longrightarrow> histories_bounded (onPerformanceEntry now e m)"
proof (cases "pe_duration e > 50")
  case True
  assume "histories_bounded m"
  then show ?thesis
    using True by (simp add: histories_bounded_def onPerformanceEntry_append length_most_recent)
next
  case False
  assume "histories_bounded m"
  then show ?thesis
    using False by (simp add: onPerformanceEntry_skip)
qed

lemma histories_bounded_onPerformanceEntries:
  "histories_bounded m \<Longrightarrow> histories_bounded (onPerformanceEntries es m)"
  by (induction es arbitrary: m) (simp_all add: histories_bounded_onPerformanceEntry)

lemma histories_bounded_dispatch:
  "histories_bounded (snd s) \<Longrightarrow> histories_bounded (snd (dispatch s e))"
proof (cases s)
  case (Pair l m)
  assume b: "histories_bounded (snd s)"
  show ?thesis
  proof (cases e)
    case (Frame t)
    then show ?thesis
      using b Pair by (cases l) (simp_all add: Let_def histories_bounded_measureFPS)
  next
    case (PerformanceEntries es)
    then show ?thesis
      using b Pair by (simp add: histories_bounded_onPerformanceEntries)
  qed (use b Pair in \<open>simp_all add: histories_bounded_def onReducedMotionChange_def onResize_def
         onVisibilityChange_def pauseMonitoring_def resumeMonitoring_def unregisterAnimation_def\<close>)
qed

lemma histories_bounded_foldl:
  "histories_bounded (snd s) \<Longrightarrow> histories_bounded (snd (foldl dispatch s es))"
  by (induction es arbitrary: s) (simp_all add: histories_bounded_dispatch)

lemma histories_bounded_run: "histories_bounded (run es)"
  unfolding run_def
  by (rule histories_bounded_foldl) (simp add: histories_bounded_def initial_def)

text \<open>
  C6: both histories are bounded first-in first-out buffers. A frame that closes a sampling
  window appends its sample and keeps the 30 most recent samples; a delivered entry above
  the 50 ms threshold appends a record and keeps the 10 most recent records, so that the
  eleventh record evicts the oldest and leaves exactly the other ten. In every run of the
  monitor the frame-rate history holds at most 30 samples and the long-task history at most
  10 records.
\<close>

theorem histories_are_bounded_fifo:
  "(length (fpsHistory (performanceData m)) \<le> 30 \<and> currentTime - lastTime l \<ge> fpsWindow \<longrightarrow>
      fpsHistory (performanceData (snd (measureFPS currentTime (l, m)))) =
        most_recent 30 (fpsHistory (performanceData m) @
          [Math_round (real (frameCount l + 1) * 1000 / (currentTime - lastTime l))]) \<and>
      length (fpsHistory (performanceData (snd (measureFPS currentTime (l, m))))) \<le> 30) \<and>
   (length (longTasks (performanceData m)) \<le> 10 \<and> pe_duration e > 50 \<longrightarrow>
      longTasks (performanceData (onPerformanceEntry now e m)) =
        most_recent 10 (longTasks (performanceData m) @
          [\<lparr>lt_duration = pe_duration e, lt_startTime = pe_startTime e, lt_timestamp = now\<rparr>]) \<and>
      length (longTasks (performanceData (onPerformanceEntry now e m))) \<le> 10) \<and>
   (length (longTasks (performanceData m)) = 10 \<and> pe_duration e > 50 \<longrightarrow>
      longTasks (performanceData (onPerformanceEntry now e m)) =
        tl (longTasks (performanceData m)) @
          [\<lparr>lt_duration = pe_duration e, lt_startTime = pe_startTime e, lt_timestamp = now\<rparr>]) \<and>
   length (fpsHistory (performanceData (run es))) \<le> 30 \<and>
   length (longTasks (performanceData (run es))) \<le> 10"
proof -
  have frames: "length (fpsHistory (performanceData m)) \<le> 30 \<and> currentTime - lastTime l \<ge> fpsWindow \<longrightarrow>
      fpsHistory (performanceData (snd (measureFPS currentTime (l, m)))) =
        most_recent 30 (fpsHistory (performanceData m) @
          [Math_round (real (frameCount l + 1) * 1000 / (currentTime - lastTime l))]) \<and>
      length (fpsHistory (performanceData (snd (measureFPS currentTime (l, m))))) \<le> 30"
    by (simp add: measureFPS_append length_most_recent)
  have tasks: "length (longTasks (performanceData m)) \<le> 10 \<and> pe_duration e > 50 \<longrightarrow>
      longTasks (performanceData (onPerformanceEntry now e m)) =
        most_recent 10 (longTasks (performanceData m) @
          [\<lparr>lt_duration = pe_duration e, lt_startTime = pe_startTime e, lt_timestamp = now\<rparr>]) \<and>
      length (longTasks (performanceData (onPerformanceEntry now e m))) \<le> 10"
    by (simp add: onPerformanceEntry_append length_most_recent)
  have eleventh: "length (longTasks (performanceData m)) = 10 \<and> pe_duration e > 50 \<longrightarrow>
      longTasks (performanceData (onPerformanceEntry now e m)) =
        tl (longTasks (performanceData m)) @
          [\<lparr>lt_duration = pe_duration e, lt_startTime = pe_startTime e, lt_timestamp = now\<rparr>]"
  proof (intro impI, elim conjE)
    let ?r = "\<lparr>lt_duration = pe_duration e, lt_startTime = pe_startTime e, lt_timestamp = now\<rparr>"
    assume len: "length (longTasks (performanceData m)) = 10" and long: "pe_duration e > 50"
    have ne: "longTasks (performanceData m) \<noteq> []"
      using len by auto
    have "longTasks (performanceData (onPerformanceEntry now e m)) =
        most_recent 10 (longTasks (performanceData m) @ [?r])"
      using len long by (simp add: onPerformanceEntry_append)
    also have "\<dots> = tl (longTasks (performanceData m) @ [?r])"
      using len by (simp add: most_recent_evict)
    also have "\<dots> = tl (longTasks (performanceData m)) @ [?r]"
      using ne by simp
    finally show "longTasks (performanceData (onPerformanceEntry now e m)) =
        tl (longTasks (performanceData m)) @ [?r]" .
  qed
  have reach: "length (fpsHistory (performanceData (run es))) \<le> 30 \<and>
      length (longTasks (performanceData (run es))) \<le> 10"
    using histories_bounded_run [of es] by (simp add: histories_bounded_def)
  show ?thesis
    using frames tasks eleventh reach by blast
qed

theorem histories_are_bounded_fifo_witness:
  "length (fpsHistory (performanceData full_monitor)) \<le> 30 \<and>
   2000 - lastTime \<lparr>frameCount = 119, lastTime = 0\<rparr> \<ge> fpsWindow \<and>
   fpsHistory (performanceData (snd (measureFPS 2000 (\<lparr>frameCount = 119, lastTime = 0\<rparr>, full_monitor)))) =
     [2, 3, 4, 5, 6, 7, 8, 9, 10, 11, 12, 13, 14, 15, 16, 17, 18, 19, 20,
      21, 22, 23, 24, 25, 26, 27, 28, 29, 30, 60] \<and>
   length (longTasks (performanceData full_monitor)) = 10 \<and>
   pe_duration \<lparr>pe_duration = 80, pe_startTime = 11\<rparr> > 50 \<and>
   longTasks (performanceData (onPerformanceEntry 12 \<lparr>pe_duration = 80, pe_startTime = 11\<rparr> full_monitor)) =
     [task 2, task 3, task 4, task 5, task 6, task 7, task 8, task 9, task 10,
      \<lparr>lt_duration = 80, lt_startTime = 11, lt_timestamp = 12\<rparr>]"
  using histories_are_bounded_fifo [of full_monitor 2000 "\<lparr>frameCount = 119, lastTime = 0\<rparr>"
      "\<lparr>pe_duration = 80, pe_startTime = 11\<rparr>" 12 "[]"]
  by (simp add: full_monitor_def fpsWindow_def most_recent_def Math_round_def)

section \<open>The admission controller\<close>

lemma registerAnimation_fst:
  "fst (registerAnimation a m) \<longleftrightarrow>
     Set_size (activeAnimations (performanceData m)) < limitConcurrentAnimations (degradation m)"
  by (simp add: registerAnimation_def)

lemma registerAnimation_active:
  "activeAnimations (performanceData (snd (registerAnimation a m))) =
     (if Set_size (activeAnimations (performanceData m)) < limitConcurrentAnimations (degradation m)
      then Set_add a (activeAnimations (performanceData m))
      else activeAnimations (performanceData m))"
  by (simp add: registerAnimation_def)

text \<open>
  C5, as stated, fails: after \<open>init\<close> on a fast host (limit 5), two admitted tickets and a
  change of the reduced-motion preference (limit 1), two tickets are active under a limit
  of 1.
\<close>

theorem active_exceeds_limit_counterexample:
  "Set_size (activeAnimations (performanceData crowded)) = 2 \<and>
   limitConcurrentAnimations (degradation crowded) = 1 \<and>
   \<not> (Set_size (activeAnimations (performanceData crowded))
         \<le> limitConcurrentAnimations (degradation crowded))"
proof -
  define m0 where "m0 = init 10 nav8 initial"
  define m1 where "m1 = snd (registerAnimation ''a'' m0)"
  define m2 where "m2 = snd (registerAnimation ''b'' m1)"
  have low: "\<not> detectLowEndDevice nav8"
    by (simp add: detectLowEndDevice_def nav8_def js_or_def)
  have lim0: "limitConcurrentAnimations (degradation m0) = 5"
    unfolding m0_def
    by (simp add: init_def applyDegradationStrategy_limit detectDevicePerformance_tier low)
       (simp add: nav8_def js_or_def)
  have act0: "activeAnimations (performanceData m0) = {||}"
    unfolding m0_def by (simp add: init_def) (simp add: initial_def)
  have lim1: "limitConcurrentAnimations (degradation m1) = 5"
    unfolding m1_def by (simp add: lim0)
  have act1: "activeAnimations (performanceData m1) = {|''a''|}"
    unfolding m1_def
    by (simp add: registerAnimation_active lim0 act0 Set_size_def Set_add_def fcard_fempty)
  have act2: "activeAnimations (performanceData m2) = {|''b'', ''a''|}"
    unfolding m2_def
    by (simp add: registerAnimation_active lim1 act1 Set_size_def Set_add_def
          fcard_finsert_if fcard_fempty)
  have c: "crowded = onReducedMotionChange True m2"
    by (simp add: crowded_def run_def m2_def m1_def m0_def)
  have size: "Set_size (activeAnimations (performanceData crowded)) = 2"
    by (simp add: c onReducedMotionChange_def act2 Set_size_def fcard_finsert_if fcard_fempty)
  have lim: "limitConcurrentAnimations (degradation crowded) = 1"
    by (simp add: c onReducedMotionChange_def applyDegradationStrategy_limit)
  show ?thesis
    using size lim by simp
qed

text \<open>
  C5, amended: \<open>registerAnimation\<close> admits an id exactly when the number of active tickets
  is below the limit, returning true and adding the id; otherwise it returns false and
  leaves the active set unchanged. It never changes the limit, so a count that is within
  the limit before the call is within it after the call. A policy evaluation, which is what
  changes the limit, leaves the active set as it is: tickets are not evicted when the
  limit shrinks, the count may then exceed the limit, and no admission succeeds until
  releases, which never raise the count, bring it below the limit.
\<close>

theorem registerAnimation_admission:
  "(fst (registerAnimation a m) \<longleftrightarrow>
      Set_size (activeAnimations (performanceData m)) < limitConcurrentAnimations (degradation m)) \<and>
   (Set_size (activeAnimations (performanceData m)) < limitConcurrentAnimations (degradation m) \<longrightarrow>
      activeAnimations (performanceData (snd (registerAnimation a m)))
        = Set_add a (activeAnimations (performanceData m))) \<and>
   (Set_size (activeAnimations (performanceData m)) \<ge> limitConcurrentAnimations (degradation m) \<longrightarrow>
      \<not> fst (registerAnimation a m) \<and>
      activeAnimations (performanceData (snd (registerAnimation a m)))
        = activeAnimations (performanceData m)) \<and>
   limitConcurrentAnimations (degradation (snd (registerAnimation a m)))
     = limitConcurrentAnimations (degradation m) \<and>
   (Set_size (activeAnimations (performanceData m)) \<le> limitConcurrentAnimations (degradation m) \<longrightarrow>
      Set_size (activeAnimations (performanceData (snd (registerAnimation a m))))
        \<le> limitConcurrentAnimations (degradation m)) \<and>
   activeAnimations (performanceData (applyDegradationStrategy m))
     = activeAnimations (performanceData m) \<and>
   Set_size (activeAnimations (performanceData (unregisterAnimation a m)))
     \<le> Set_size (activeAnimations (performanceData m))"
  by (auto simp add: registerAnimation_fst registerAnimation_active Set_add_def
        unregisterAnimation_def Set_delete_def Set_size_def fcard_finsert_if fcard_fminus1_le)

theorem registerAnimation_admission_witness:
  "Set_size (activeAnimations (performanceData one_active)) < limitConcurrentAnimations (degradation one_active) \<and>
   fst (registerAnimation ''d'' one_active) \<and>
   activeAnimations (performanceData (snd (registerAnimation ''d'' one_active))) = {|''d'', ''a''|} \<and>
   Set_size (activeAnimations (performanceData three_active)) \<ge> limitConcurrentAnimations (degradation three_active) \<and>
   \<not> fst (registerAnimation ''d'' three_active) \<and>
   activeAnimations (performanceData (snd (registerAnimation ''d'' three_active))) = {|''a'', ''b'', ''c''|} \<and>
   fst (registerAnimation ''d'' (unregisterAnimation ''b'' three_active))"
  using registerAnimation_admission [of "''d''" one_active]
    registerAnimation_admission [of "''d''" three_active]
    registerAnimation_admission [of "''d''" "unregisterAnimation ''b'' three_active"]
  by (simp add: one_active_def three_active_def initial_def Set_size_def Set_add_def
        unregisterAnimation_def Set_delete_def fcard_finsert_if fcard_fempty)

text \<open>
  C9: \<open>unregisterAnimation\<close> has no error path; on an id that is not in the active set it
  leaves the whole monitor state unchanged, and calling it twice with the same id has the
  effect of calling it once.
\<close>

theorem unregisterAnimation_idempotent:
  "(a |\<notin>| activeAnimations (performanceData m) \<longrightarrow> unregisterAnimation a m = m) \<and>
   unregisterAnimation a (unregisterAnimation a m) = unregisterAnimation a m"
  by (simp add: unregisterAnimation_def Set_delete_def)

theorem unregisterAnimation_idempotent_witness:
  "''x'' |\<notin>| activeAnimations (performanceData initial) \<and> unregisterAnimation ''x'' initial = initial"
  using unregisterAnimation_idempotent [of "''x''" initial]
  by (simp add: initial_def)

text \<open>
  C10: registering an id that is already active, while the count is below the limit,
  returns true and changes nothing, so it takes no further slot; and after any call of
  \<open>registerAnimation\<close> the size of the active set is the size before or one more.
\<close>

theorem registerAnimation_reregister:
  "(a |\<in>| activeAnimations (performanceData m) \<and>
    Set_size (activeAnimations (performanceData m)) < limitConcurrentAnimations (degradation m) \<longrightarrow>
      registerAnimation a m = (True, m)) \<and>
   (Set_size (activeAnimations (performanceData (snd (registerAnimation b m))))
      = Set_size (activeAnimations (performanceData m)) \<or>
    Set_size (activeAnimations (performanceData (snd (registerAnimation b m))))
      = Set_size (activeAnimations (performanceData m)) + 1)"
  by (auto simp add: registerAnimation_def Set_add_def Set_size_def finsert_absorb fcard_finsert_if)

theorem registerAnimation_reregister_witness:
  "''a'' |\<in>| activeAnimations (performanceData one_active) \<and>
   Set_size (activeAnimations (performanceData one_active)) < limitConcurrentAnimations (degradation one_active) \<and>
   registerAnimation ''a'' one_active = (True, one_active) \<and>
   Set_size (activeAnimations (performanceData (snd (registerAnimation ''a'' one_active)))) = 1"
  using registerAnimation_reregister [of "''a''" one_active "''a''"]
  by (simp add: one_active_def initial_def Set_size_def fcard_finsert_if fcard_fempty)

section \<open>Skipped animations\<close>

lemma shouldAnimate_Some:
  "PerformanceMonitor w = Some m \<Longrightarrow>
   shouldAnimate w \<longleftrightarrow> \<not> (isReducedMotion (performanceData m) \<or> deviceTier (performanceData m) = Low)"
  by (simp add: shouldAnimate_def)

text \<open>
  C7, as stated, fails, since the callback is the caller's code: on the skip path a callback
  that throws makes \<open>animate\<close> throw, so that no cancel handle is returned; and a callback
  that releases a ticket of the monitor leaves the active set changed when \<open>animate\<close>
  returns.
\<close>

theorem animate_skip_callback_counterexample:
  "\<not> shouldAnimate (window0 (sample_monitor Low [])) \<and>
   fst (animate throwing_callback None (window0 (sample_monitor Low []))) = Inl Thrown \<and>
   \<not> shouldAnimate (window0 low_one_active) \<and>
   activeAnimations (performanceData low_one_active) = {|''a''|} \<and>
   animate releasing_callback None (window0 low_one_active)
     = (Inr NoopCancel, window0 (unregisterAnimation ''a'' low_one_active)) \<and>
   activeAnimations (performanceData (unregisterAnimation ''a'' low_one_active)) = {||}"
proof -
  have a: "\<not> shouldAnimate (window0 (sample_monitor Low []))"
    by (simp add: shouldAnimate_def window0_def sample_monitor_def)
  have b: "\<not> shouldAnimate (window0 low_one_active)"
    by (simp add: shouldAnimate_def window0_def low_one_active_def)
  have c: "activeAnimations (performanceData low_one_active) = {|''a''|}"
    by (simp add: low_one_active_def one_active_def)
  have d: "activeAnimations (performanceData (unregisterAnimation ''a'' low_one_active)) = {||}"
    by (simp add: unregisterAnimation_def Set_delete_def c)
  have e: "fst (animate throwing_callback None (window0 (sample_monitor Low []))) = Inl Thrown"
    using a by (simp add: animate_def throwing_callback_def)
  have f: "animate releasing_callback None (window0 low_one_active)
     = (Inr NoopCancel, window0 (unregisterAnimation ''a'' low_one_active))"
    using b by (simp add: animate_def releasing_callback_def unregisterIfId_def truthy_def)
               (simp add: window0_def)
  show ?thesis
    using a b c d e f by simp
qed

text \<open>
  C7, amended: with the monitor present, \<open>shouldAnimate\<close> is false exactly when the
  reduced-motion preference is set or the tier is low. For every callback and optional
  ticket id, if \<open>shouldAnimate\<close> is false, or a ticket id is supplied and \<open>registerAnimation\<close>
  refuses it, then \<open>animate\<close> itself leaves the active ticket set unchanged, requests no
  frame and invokes the callback exactly once, with progress 1. If the callback returns,
  \<open>animate\<close> returns the handle whose cancel function does nothing, in the state the
  callback left; if the callback throws, the exception leaves \<open>animate\<close> and no handle is
  returned.
\<close>

theorem animate_skips_to_completion:
  assumes "PerformanceMonitor w = Some m"
    and "\<not> shouldAnimate w \<or> (truthy ident \<and> \<not> fst (registerAnimation (the ident) m))"
  shows "(shouldAnimate w \<longleftrightarrow>
            \<not> (isReducedMotion (performanceData m) \<or> deviceTier (performanceData m) = Low)) \<and>
         (\<not> shouldAnimate w \<longrightarrow>
            animate cb ident w =
              (case fst (cb 1 w) of Inl e \<Rightarrow> Inl e | Inr u \<Rightarrow> Inr NoopCancel, snd (cb 1 w))) \<and>
         (shouldAnimate w \<longrightarrow>
            animate cb ident w =
              (case fst (cb 1 (w\<lparr>PerformanceMonitor := Some (snd (registerAnimation (the ident) m))\<rparr>)) of
                 Inl e \<Rightarrow> Inl e | Inr u \<Rightarrow> Inr NoopCancel,
               snd (cb 1 (w\<lparr>PerformanceMonitor := Some (snd (registerAnimation (the ident) m))\<rparr>))) \<and>
            activeAnimations (performanceData (snd (registerAnimation (the ident) m)))
              = activeAnimations (performanceData m)) \<and>
         cancel NoopCancel x = (Inr (), x)"
proof (cases "shouldAnimate w")
  case False
  then show ?thesis
    using assms(1) by (simp add: animate_def Let_def cancel_def shouldAnimate_Some)
next
  case True
  then have fail: "truthy ident" "\<not> fst (registerAnimation (the ident) m)"
    using assms(2) by auto
  have full: "\<not> Set_size (activeAnimations (performanceData m)) < limitConcurrentAnimations (degradation m)"
    using fail(2) by (simp add: registerAnimation_fst)
  have run: "animate cb ident w =
      (case fst (cb 1 (w\<lparr>PerformanceMonitor := Some (snd (registerAnimation (the ident) m))\<rparr>)) of
         Inl e \<Rightarrow> Inl e | Inr u \<Rightarrow> Inr NoopCancel,
       snd (cb 1 (w\<lparr>PerformanceMonitor := Some (snd (registerAnimation (the ident) m))\<rparr>)))"
    using True fail assms(1) by (simp add: animate_def Let_def)
  have same: "activeAnimations (performanceData (snd (registerAnimation (the ident) m)))
      = activeAnimations (performanceData m)"
    using full by (simp add: registerAnimation_active)
  have sa: "shouldAnimate w \<longleftrightarrow>
      \<not> (isReducedMotion (performanceData m) \<or> deviceTier (performanceData m) = Low)"
    using assms(1) by (rule shouldAnimate_Some)
  have noop: "cancel NoopCancel x = (Inr (), x)"
    by (simp add: cancel_def)
  show ?thesis
    using True run same sa noop by blast
qed

theorem animate_skips_to_completion_witness:
  "PerformanceMonitor (window0 (sample_monitor Low [])) = Some (sample_monitor Low []) \<and>
   \<not> shouldAnimate (window0 (sample_monitor Low [])) \<and>
   animate recording_callback None (window0 (sample_monitor Low []))
     = (Inr NoopCancel, (window0 (sample_monitor Low []))\<lparr>pageLog := [1]\<rparr>) \<and>
   PerformanceMonitor (window0 three_active) = Some three_active \<and>
   shouldAnimate (window0 three_active) \<and> truthy (Some ''d'') \<and>
   \<not> fst (registerAnimation (the (Some ''d'')) three_active) \<and>
   animate recording_callback (Some ''d'') (window0 three_active)
     = (Inr NoopCancel, (window0 (snd (registerAnimation ''d'' three_active)))\<lparr>pageLog := [1]\<rparr>) \<and>
   activeAnimations (performanceData (snd (registerAnimation ''d'' three_active))) = {|''a'', ''b'', ''c''|}"
proof -
  have a1: "PerformanceMonitor (window0 (sample_monitor Low [])) = Some (sample_monitor Low [])"
    by (simp add: window0_def)
  have a2: "\<not> shouldAnimate (window0 (sample_monitor Low []))"
    by (simp add: shouldAnimate_def window0_def sample_monitor_def)
  have b1: "PerformanceMonitor (window0 three_active) = Some three_active"
    by (simp add: window0_def)
  have b2: "shouldAnimate (window0 three_active)"
    by (simp add: shouldAnimate_def window0_def three_active_def initial_def)
  have b3: "truthy (Some ''d'') \<and> \<not> fst (registerAnimation (the (Some ''d'')) three_active)"
    by (simp add: truthy_def registerAnimation_fst three_active_def initial_def Set_size_def
          fcard_finsert_if fcard_fempty)
  have b4: "activeAnimations (performanceData three_active) = {|''a'', ''b'', ''c''|}"
    by (simp add: three_active_def)
  have a: "animate recording_callback None (window0 (sample_monitor Low []))
     = (Inr NoopCancel, (window0 (sample_monitor Low []))\<lparr>pageLog := [1]\<rparr>)"
    using animate_skips_to_completion [OF a1, of None recording_callback] a2
    by (simp add: recording_callback_def window0_def)
  have b: "animate recording_callback (Some ''d'') (window0 three_active)
     = (Inr NoopCancel, (window0 (snd (registerAnimation ''d'' three_active)))\<lparr>pageLog := [1]\<rparr>) \<and>
     activeAnimations (performanceData (snd (registerAnimation ''d'' three_active))) = {|''a'', ''b'', ''c''|}"
    using animate_skips_to_completion [OF b1, of "Some ''d''" recording_callback] b2 b3 b4
    by (simp add: recording_callback_def window0_def)
  show ?thesis
    using a1 a2 a b1 b2 b3 b by simp
qed

end
